theory Spec2Isabelle
  imports Main
begin

section \<open>JavaScript values\<close>

text \<open>
  The client of \<^verbatim>\<open>src/api.js\<close> handles untyped JavaScript values: the session fields
  may hold \<^verbatim>\<open>null\<close>, \<^verbatim>\<open>undefined\<close> or a string, and response bodies are arbitrary
  JSON. Numbers are restricted to the integers (HTTP status codes, limits, offsets);
  an object is the list of its own properties, the first binding of a key being the
  property.
\<close>

datatype jsval =
    JUndefined
  | JNull
  | JBool bool
  | JNum int
  | JStr string
  | JArr "jsval list"
  | JObj "(string \<times> jsval) list"

text \<open>ToBoolean, as applied by \<^verbatim>\<open>if (x)\<close>, \<^verbatim>\<open>!x\<close>, \<^verbatim>\<open>x || y\<close> and \<^verbatim>\<open>x ? a : b\<close>.\<close>

fun truthy :: "jsval \<Rightarrow> bool" where
  "truthy JUndefined = False"
| "truthy JNull = False"
| "truthy (JBool b) = b"
| "truthy (JNum n) = (n \<noteq> 0)"
| "truthy (JStr s) = (s \<noteq> [])"
| "truthy (JArr xs) = True"
| "truthy (JObj kvs) = True"

text \<open>Decimal rendering of a number, as a template literal or ToString produces it.\<close>

definition digit_char :: "nat \<Rightarrow> char" where
  "digit_char n = ''0123456789'' ! n"

function show_nat :: "nat \<Rightarrow> string" where
  "show_nat n = (if n < 10 then [digit_char n] else show_nat (n div 10) @ [digit_char (n mod 10)])"
  by pat_completeness auto
termination
  by (relation "measure id") auto

declare show_nat.simps [simp del]

definition show_int :: "int \<Rightarrow> string" where
  "show_int i = (if i < 0 then CHR ''-'' # show_nat (nat (- i)) else show_nat (nat i))"

fun join :: "string \<Rightarrow> string list \<Rightarrow> string" where
  "join sep [] = []"
| "join sep [x] = x"
| "join sep (x # y # ys) = x @ sep @ join sep (y # ys)"

text \<open>
  ToString, as applied by a template literal \<^verbatim>\<open>`${x}`\<close>, by \<^verbatim>\<open>new Error(x)\<close>, by
  \<^verbatim>\<open>localStorage.setItem(k, x)\<close> and by \<^verbatim>\<open>URLSearchParams.append(k, x)\<close>.
\<close>

fun to_string :: "jsval \<Rightarrow> string" where
  "to_string JUndefined = ''undefined''"
| "to_string JNull = ''null''"
| "to_string (JBool b) = (if b then ''true'' else ''false'')"
| "to_string (JNum n) = show_int n"
| "to_string (JStr s) = s"
| "to_string (JArr xs) =
     join '','' (map (\<lambda>x. if x = JUndefined \<or> x = JNull then [] else to_string x) xs)"
| "to_string (JObj kvs) = ''[object Object]''"

text \<open>Errors are values: the thrown object with its \<^verbatim>\<open>message\<close>.\<close>

datatype js_error =
    Error string
  | TypeError string
  | SyntaxError string

fun message :: "js_error \<Rightarrow> string" where
  "message (Error m) = m"
| "message (TypeError m) = m"
| "message (SyntaxError m) = m"

type_synonym 'a result = "js_error + 'a"

text \<open>
  Property read \<^verbatim>\<open>v.k\<close>. Reading a property of \<^verbatim>\<open>null\<close> or \<^verbatim>\<open>undefined\<close> throws a
  TypeError; a missing property reads as \<^verbatim>\<open>undefined\<close>. The source reads only the keys
  \<^verbatim>\<open>error\<close>, \<^verbatim>\<open>token\<close>, \<^verbatim>\<open>userId\<close>, \<^verbatim>\<open>status\<close>, \<^verbatim>\<open>limit\<close> and \<^verbatim>\<open>offset\<close>, none of which
  a string, number, boolean or array inherits.
\<close>

fun get_prop :: "jsval \<Rightarrow> string \<Rightarrow> jsval result" where
  "get_prop JUndefined k = Inl (TypeError ''Cannot read properties of undefined'')"
| "get_prop JNull k = Inl (TypeError ''Cannot read properties of null'')"
| "get_prop (JObj kvs) k = Inr (case map_of kvs k of None \<Rightarrow> JUndefined | Some v \<Rightarrow> v)"
| "get_prop v k = Inr JUndefined"

section \<open>Session state and persistent storage\<close>

text \<open>
  The singleton client with the two pieces of the browser it acts on: \<^verbatim>\<open>localStorage\<close>
  (string keys to string values) and the log of the requests handed to the platform's
  \<^verbatim>\<open>fetch\<close>, oldest first. \<^verbatim>\<open>setItem\<close> is taken to succeed (no storage quota).
\<close>

datatype reqbody = JSON_stringify jsval | Text string

record request =
  req_url :: string
  req_method :: "string option"
  req_headers :: "string \<rightharpoonup> string"
  req_body :: "reqbody option"

record CartelAPI =
  token :: jsval
  userId :: jsval
  walletAddress :: jsval
  localStorage :: "string \<rightharpoonup> string"
  sent :: "request list"

definition getItem :: "(string \<rightharpoonup> string) \<Rightarrow> string \<Rightarrow> jsval" where
  "getItem store k = (case store k of None \<Rightarrow> JNull | Some v \<Rightarrow> JStr v)"

definition setItem :: "string \<Rightarrow> jsval \<Rightarrow> CartelAPI \<Rightarrow> CartelAPI" where
  "setItem k v c = c\<lparr>localStorage := (localStorage c)(k \<mapsto> to_string v)\<rparr>"

definition removeItem :: "string \<Rightarrow> CartelAPI \<Rightarrow> CartelAPI" where
  "removeItem k c = c\<lparr>localStorage := (localStorage c)(k := None)\<rparr>"

text \<open>\<^verbatim>\<open>constructor()\<close>, lines 10-14, on a page whose storage is \<open>store\<close>.\<close>

definition constructor :: "(string \<rightharpoonup> string) \<Rightarrow> CartelAPI" where
  "constructor store =
     \<lparr>token = getItem store ''cartel47_token'',
      userId = getItem store ''cartel47_userId'',
      walletAddress = getItem store ''cartel47_wallet'',
      localStorage = store,
      sent = []\<rparr>"

text \<open>\<^verbatim>\<open>setToken(token, userId, walletAddress)\<close>, lines 17-24 (the spec's setSession).\<close>

definition setToken :: "jsval \<Rightarrow> jsval \<Rightarrow> jsval \<Rightarrow> CartelAPI \<Rightarrow> CartelAPI" where
  "setToken t u w c =
     setItem ''cartel47_wallet'' w
       (setItem ''cartel47_userId'' u
         (setItem ''cartel47_token'' t
           (c\<lparr>token := t, userId := u, walletAddress := w\<rparr>)))"

text \<open>\<^verbatim>\<open>clearSession()\<close>, lines 27-34.\<close>

definition clearSession :: "CartelAPI \<Rightarrow> CartelAPI" where
  "clearSession c =
     removeItem ''cartel47_wallet''
       (removeItem ''cartel47_userId''
         (removeItem ''cartel47_token''
           (c\<lparr>token := JNull, userId := JNull, walletAddress := JNull\<rparr>)))"

section \<open>The transport\<close>

text \<open>
  What the platform's \<^verbatim>\<open>fetch\<close> gives back: a rejection (a network failure, thrown as an
  error object with a message) or a response. Of a response the client reads
  \<^verbatim>\<open>status\<close>, \<^verbatim>\<open>ok\<close> and \<^verbatim>\<open>json()\<close>; the latter is the parsed body, or the parser's
  SyntaxError (whose message is the engine's) when the body is not JSON.
\<close>

record response =
  resp_status :: nat
  resp_json :: "jsval result"

text \<open>\<^verbatim>\<open>response.ok\<close>: the status is in the range 200-299 (Fetch standard).\<close>

definition ok :: "response \<Rightarrow> bool" where
  "ok r \<longleftrightarrow> 200 \<le> resp_status r \<and> resp_status r \<le> 299"

datatype outcome = Rejected js_error | Resolved response

type_synonym transport = "request \<Rightarrow> outcome"

text \<open>A call of the global \<^verbatim>\<open>fetch\<close>: the request is logged and the transport answers.\<close>

definition window_fetch :: "transport \<Rightarrow> request \<Rightarrow> CartelAPI \<Rightarrow> outcome \<times> CartelAPI" where
  "window_fetch net req c = (net req, c\<lparr>sent := sent c @ [req]\<rparr>)"

text \<open>
  \<^verbatim>\<open>const API_BASE_URL = process.env.REACT_APP_BACKEND_URL || 'http://localhost:3001/api'\<close>,
  line 7: an unset or empty variable gives the default. The methods below take the
  resulting constant as their parameter \<open>base\<close>.
\<close>

definition API_BASE_URL :: "string option \<Rightarrow> string" where
  "API_BASE_URL env =
     (case env of
        None \<Rightarrow> ''http://localhost:3001/api''
      | Some s \<Rightarrow> if s \<noteq> [] then s else ''http://localhost:3001/api'')"

section \<open>The generic request helper\<close>

text \<open>
  The \<^verbatim>\<open>options\<close> argument of \<^verbatim>\<open>CartelAPI.fetch\<close>: the three members the callers of this
  file set. An absent member is \<open>None\<close>.
\<close>

record options =
  opt_method :: "string option"
  opt_body :: "reqbody option"
  opt_headers :: "(string \<rightharpoonup> string) option"

definition no_options :: options where
  "no_options = \<lparr>opt_method = None, opt_body = None, opt_headers = None\<rparr>"

text \<open>
  Lines 38-45: the object literal spreads the caller's headers over the default
  content type, then the bearer credential is assigned when the token is truthy.
\<close>

definition fetch_headers :: "options \<Rightarrow> CartelAPI \<Rightarrow> (string \<rightharpoonup> string)" where
  "fetch_headers opts c =
     (let headers = [''Content-Type'' \<mapsto> ''application/json''] ++
                      (case opt_headers opts of None \<Rightarrow> Map.empty | Some h \<Rightarrow> h)
      in if truthy (token c)
         then headers(''Authorization'' \<mapsto> ''Bearer '' @ to_string (token c))
         else headers)"

text \<open>Lines 47-50: the URL and the init object handed to the global \<^verbatim>\<open>fetch\<close>.\<close>

definition fetch_request :: "string \<Rightarrow> string \<Rightarrow> options \<Rightarrow> CartelAPI \<Rightarrow> request" where
  "fetch_request base endpoint opts c =
     \<lparr>req_url = base @ endpoint,
      req_method = opt_method opts,
      req_headers = fetch_headers opts c,
      req_body = opt_body opts\<rparr>"

text \<open>
  \<^verbatim>\<open>async fetch(endpoint, options = {})\<close>, lines 37-58. A rejection of the transport or
  of \<^verbatim>\<open>response.json()\<close> propagates; on a response that is not ok the parsed body's
  \<^verbatim>\<open>error\<close> property, when truthy, becomes the message of the thrown error.
\<close>

definition fetch :: "string \<Rightarrow> transport \<Rightarrow> string \<Rightarrow> options \<Rightarrow> CartelAPI \<Rightarrow> jsval result \<times> CartelAPI" where
  "fetch base net endpoint opts c =
     (case window_fetch net (fetch_request base endpoint opts c) c of
        (Rejected e, c') \<Rightarrow> (Inl e, c')
      | (Resolved response, c') \<Rightarrow>
          if \<not> ok response then
            (case resp_json response of
               Inl e \<Rightarrow> (Inl e, c')
             | Inr error \<Rightarrow>
                 (case get_prop error ''error'' of
                    Inl e \<Rightarrow> (Inl e, c')
                  | Inr m \<Rightarrow>
                      (Inl (Error (if truthy m then to_string m
                                   else ''API Error: '' @ show_nat (resp_status response))), c')))
          else (resp_json response, c'))"

section \<open>Authentication\<close>

text \<open>The options literal of lines 68-71.\<close>

definition connect_options :: "jsval \<Rightarrow> jsval \<Rightarrow> options" where
  "connect_options wallet signature =
     \<lparr>opt_method = Some ''POST'',
      opt_body = Some (JSON_stringify
        (JObj [(''walletAddress'', wallet), (''signature'', signature)])),
      opt_headers = None\<rparr>"

text \<open>\<^verbatim>\<open>async authenticateWallet(walletAddress, signature)\<close>, lines 67-74.\<close>

definition authenticateWallet ::
  "string \<Rightarrow> transport \<Rightarrow> jsval \<Rightarrow> jsval \<Rightarrow> CartelAPI \<Rightarrow> jsval result \<times> CartelAPI" where
  "authenticateWallet base net wallet signature c =
     (case fetch base net ''/auth/connect'' (connect_options wallet signature) c of
        (Inl e, c') \<Rightarrow> (Inl e, c')
      | (Inr data, c') \<Rightarrow>
          (case get_prop data ''token'' of
             Inl e \<Rightarrow> (Inl e, c')
           | Inr t \<Rightarrow>
               (case get_prop data ''userId'' of
                  Inl e \<Rightarrow> (Inl e, c')
                | Inr u \<Rightarrow> (Inr data, setToken t u wallet c'))))"

section \<open>Games\<close>

definition getAllGames :: "string \<Rightarrow> transport \<Rightarrow> CartelAPI \<Rightarrow> jsval result \<times> CartelAPI" where
  "getAllGames base net c = fetch base net ''/games'' no_options c"

definition getGamesByCategory ::
  "string \<Rightarrow> transport \<Rightarrow> jsval \<Rightarrow> CartelAPI \<Rightarrow> jsval result \<times> CartelAPI" where
  "getGamesByCategory base net category c =
     fetch base net (''/games?category='' @ to_string category) no_options c"

definition getGame :: "string \<Rightarrow> transport \<Rightarrow> jsval \<Rightarrow> CartelAPI \<Rightarrow> jsval result \<times> CartelAPI" where
  "getGame base net gameId c = fetch base net (''/games/'' @ to_string gameId) no_options c"

section \<open>Betting\<close>

text \<open>\<^verbatim>\<open>async placeBet(gameId, betAmount, clientSeed)\<close>, lines 109-121.\<close>

definition placeBet ::
  "string \<Rightarrow> transport \<Rightarrow> jsval \<Rightarrow> jsval \<Rightarrow> jsval \<Rightarrow> CartelAPI \<Rightarrow> jsval result \<times> CartelAPI" where
  "placeBet base net gameId betAmount clientSeed c =
     (if \<not> truthy (token c) then (Inl (Error ''Not authenticated''), c)
      else fetch base net ''/bets/place''
             \<lparr>opt_method = Some ''POST'',
              opt_body = Some (JSON_stringify
                (JObj [(''gameId'', gameId), (''betAmount'', betAmount),
                       (''clientSeed'', clientSeed)])),
              opt_headers = None\<rparr> c)"

text \<open>\<^verbatim>\<open>async getBet(betId)\<close>, lines 127-130.\<close>

definition getBet :: "string \<Rightarrow> transport \<Rightarrow> jsval \<Rightarrow> CartelAPI \<Rightarrow> jsval result \<times> CartelAPI" where
  "getBet base net betId c =
     (if \<not> truthy (token c) then (Inl (Error ''Not authenticated''), c)
      else fetch base net (''/bets/'' @ to_string betId) no_options c)"

text \<open>\<^verbatim>\<open>async settleBet(betId)\<close>, lines 136-144.\<close>

definition settleBet :: "string \<Rightarrow> transport \<Rightarrow> jsval \<Rightarrow> CartelAPI \<Rightarrow> jsval result \<times> CartelAPI" where
  "settleBet base net betId c =
     (if \<not> truthy (token c) then (Inl (Error ''Not authenticated''), c)
      else fetch base net (''/bets/'' @ to_string betId @ ''/settle'')
             \<lparr>opt_method = Some ''POST'',
              opt_body = Some (JSON_stringify (JObj [])),
              opt_headers = None\<rparr> c)"

text \<open>
  \<^verbatim>\<open>URLSearchParams\<close>: the list of name-value pairs in the order of the \<^verbatim>\<open>append\<close> calls;
  \<^verbatim>\<open>toString()\<close> is the application/x-www-form-urlencoded serialisation of the URL
  standard, on the bytes of the UTF-8 text.
\<close>

definition url_unreserved :: "char \<Rightarrow> bool" where
  "url_unreserved ch \<longleftrightarrow>
     ch \<in> set ''ABCDEFGHIJKLMNOPQRSTUVWXYZabcdefghijklmnopqrstuvwxyz0123456789*-._''"

definition hex_char :: "nat \<Rightarrow> char" where
  "hex_char n = ''0123456789ABCDEF'' ! n"

definition urlencode_byte :: "char \<Rightarrow> string" where
  "urlencode_byte ch =
     (if url_unreserved ch then [ch]
      else if ch = CHR '' '' then ''+''
      else [CHR ''%'', hex_char ((of_char ch :: nat) div 16), hex_char ((of_char ch :: nat) mod 16)])"

definition urlencode :: "string \<Rightarrow> string" where
  "urlencode s = concat (map urlencode_byte s)"

definition params_toString :: "(string \<times> string) list \<Rightarrow> string" where
  "params_toString ps = join ''&'' (map (\<lambda>(k, v). urlencode k @ ''='' @ urlencode v) ps)"

text \<open>\<^verbatim>\<open>if (options.k) params.append('k', options.k)\<close>, lines 154-156.\<close>

definition append_option ::
  "jsval \<Rightarrow> string \<Rightarrow> (string \<times> string) list \<Rightarrow> (string \<times> string) list result" where
  "append_option opts k params =
     (case get_prop opts k of
        Inl e \<Rightarrow> Inl e
      | Inr v \<Rightarrow> Inr (if truthy v then params @ [(k, to_string v)] else params))"

text \<open>
  \<^verbatim>\<open>async getUserBets(options = {})\<close>, lines 150-159. The default value replaces an
  \<^verbatim>\<open>undefined\<close> argument only.
\<close>

definition getUserBets ::
  "string \<Rightarrow> transport \<Rightarrow> jsval \<Rightarrow> CartelAPI \<Rightarrow> jsval result \<times> CartelAPI" where
  "getUserBets base net opts0 c =
     (let opts = (if opts0 = JUndefined then JObj [] else opts0) in
      if \<not> truthy (userId c) then (Inl (Error ''Not authenticated''), c)
      else
        (case append_option opts ''status'' [] of
           Inl e \<Rightarrow> (Inl e, c)
         | Inr p1 \<Rightarrow>
             (case append_option opts ''limit'' p1 of
                Inl e \<Rightarrow> (Inl e, c)
              | Inr p2 \<Rightarrow>
                  (case append_option opts ''offset'' p2 of
                     Inl e \<Rightarrow> (Inl e, c)
                   | Inr params \<Rightarrow>
                       fetch base net
                         (''/bets/user/'' @ to_string (userId c) @ ''?'' @ params_toString params)
                         no_options c))))"

section \<open>Transactions\<close>

text \<open>\<^verbatim>\<open>async deposit(amount, tokenSymbol)\<close>, lines 168-178.\<close>

definition deposit ::
  "string \<Rightarrow> transport \<Rightarrow> jsval \<Rightarrow> jsval \<Rightarrow> CartelAPI \<Rightarrow> jsval result \<times> CartelAPI" where
  "deposit base net amount tokenSymbol c =
     (if \<not> truthy (token c) then (Inl (Error ''Not authenticated''), c)
      else fetch base net ''/transactions/deposit''
             \<lparr>opt_method = Some ''POST'',
              opt_body = Some (JSON_stringify
                (JObj [(''amount'', amount), (''tokenSymbol'', tokenSymbol)])),
              opt_headers = None\<rparr> c)"

text \<open>\<^verbatim>\<open>async withdraw(amount, tokenSymbol)\<close>, lines 185-195.\<close>

definition withdraw ::
  "string \<Rightarrow> transport \<Rightarrow> jsval \<Rightarrow> jsval \<Rightarrow> CartelAPI \<Rightarrow> jsval result \<times> CartelAPI" where
  "withdraw base net amount tokenSymbol c =
     (if \<not> truthy (token c) then (Inl (Error ''Not authenticated''), c)
      else fetch base net ''/transactions/withdraw''
             \<lparr>opt_method = Some ''POST'',
              opt_body = Some (JSON_stringify
                (JObj [(''amount'', amount), (''tokenSymbol'', tokenSymbol)])),
              opt_headers = None\<rparr> c)"

text \<open>\<^verbatim>\<open>async getTransactions(type = null)\<close>, lines 200-205.\<close>

definition getTransactions ::
  "string \<Rightarrow> transport \<Rightarrow> jsval \<Rightarrow> CartelAPI \<Rightarrow> jsval result \<times> CartelAPI" where
  "getTransactions base net type0 c =
     (let type = (if type0 = JUndefined then JNull else type0) in
      if \<not> truthy (token c) then (Inl (Error ''Not authenticated''), c)
      else fetch base net
             (if truthy type then ''/transactions?type='' @ to_string type else ''/transactions'')
             no_options c)"

section \<open>Health checks\<close>

text \<open>
  \<^verbatim>\<open>s.replace(pat, rep)\<close> with a string pattern: the first occurrence of \<open>pat\<close> in \<open>s\<close>
  is replaced, scanning from the left; without an occurrence \<open>s\<close> is returned. (The
  replacement used by the source is empty, so no \<^verbatim>\<open>$\<close> pattern is involved.)
\<close>

fun String_replace :: "string \<Rightarrow> string \<Rightarrow> string \<Rightarrow> string" where
  "String_replace [] pat rep = (if pat = [] then rep else [])"
| "String_replace (ch # s) pat rep =
     (if take (length pat) (ch # s) = pat then rep @ drop (length pat) (ch # s)
      else ch # String_replace s pat rep)"

text \<open>The request of a bare \<^verbatim>\<open>fetch(url)\<close>: no init object, hence no headers.\<close>

definition bare_request :: "string \<Rightarrow> request" where
  "bare_request u = \<lparr>req_url = u, req_method = None, req_headers = Map.empty, req_body = None\<rparr>"

text \<open>
  \<^verbatim>\<open>async checkHealth()\<close>, lines 212-219. The \<^verbatim>\<open>try\<close> block is the call of the global
  \<^verbatim>\<open>fetch\<close> and the test of \<^verbatim>\<open>response.ok\<close>; the \<^verbatim>\<open>catch\<close> clause receives the
  rejection and reads its message.
\<close>

definition checkHealth :: "string \<Rightarrow> transport \<Rightarrow> CartelAPI \<Rightarrow> jsval result \<times> CartelAPI" where
  "checkHealth base net c =
     (case window_fetch net (bare_request (String_replace base ''/api'' [] @ ''/health'')) c of
        (Resolved response, c') \<Rightarrow>
          (Inr (if ok response then JObj [(''status'', JStr ''healthy'')]
                else JObj [(''status'', JStr ''unhealthy'')]), c')
      | (Rejected error, c') \<Rightarrow>
          (Inr (JObj [(''status'', JStr ''offline''), (''error'', JStr (message error))]), c'))"

text \<open>\<^verbatim>\<open>async checkDatabase()\<close>, lines 224-231.\<close>

definition checkDatabase :: "string \<Rightarrow> transport \<Rightarrow> CartelAPI \<Rightarrow> jsval result \<times> CartelAPI" where
  "checkDatabase base net c =
     (case window_fetch net (bare_request (String_replace base ''/api'' [] @ ''/db-check'')) c of
        (Resolved response, c') \<Rightarrow>
          (Inr (if ok response then JObj [(''status'', JStr ''connected'')]
                else JObj [(''status'', JStr ''disconnected'')]), c')
      | (Rejected error, c') \<Rightarrow>
          (Inr (JObj [(''status'', JStr ''error''), (''error'', JStr (message error))]), c'))"

section \<open>Calls of the client\<close>

text \<open>
  One constructor per method of the class with its arguments, so that a statement can
  range over every method; \<open>invoke\<close> runs the method named.
\<close>

datatype call =
    Fetch string options
  | AuthenticateWallet jsval jsval
  | GetAllGames
  | GetGamesByCategory jsval
  | GetGame jsval
  | PlaceBet jsval jsval jsval
  | GetBet jsval
  | SettleBet jsval
  | GetUserBets jsval
  | Deposit jsval jsval
  | Withdraw jsval jsval
  | GetTransactions jsval
  | CheckHealth
  | CheckDatabase

fun invoke :: "string \<Rightarrow> transport \<Rightarrow> call \<Rightarrow> CartelAPI \<Rightarrow> jsval result \<times> CartelAPI" where
  "invoke base net (Fetch endpoint opts) c = fetch base net endpoint opts c"
| "invoke base net (AuthenticateWallet w s) c = authenticateWallet base net w s c"
| "invoke base net GetAllGames c = getAllGames base net c"
| "invoke base net (GetGamesByCategory category) c = getGamesByCategory base net category c"
| "invoke base net (GetGame gameId) c = getGame base net gameId c"
| "invoke base net (PlaceBet gameId betAmount clientSeed) c =
     placeBet base net gameId betAmount clientSeed c"
| "invoke base net (GetBet betId) c = getBet base net betId c"
| "invoke base net (SettleBet betId) c = settleBet base net betId c"
| "invoke base net (GetUserBets opts) c = getUserBets base net opts c"
| "invoke base net (Deposit amount tokenSymbol) c = deposit base net amount tokenSymbol c"
| "invoke base net (Withdraw amount tokenSymbol) c = withdraw base net amount tokenSymbol c"
| "invoke base net (GetTransactions type) c = getTransactions base net type c"
| "invoke base net CheckHealth c = checkHealth base net c"
| "invoke base net CheckDatabase c = checkDatabase base net c"

text \<open>The requests a call hands to the transport: what it adds to the log.\<close>

definition issued :: "string \<Rightarrow> transport \<Rightarrow> call \<Rightarrow> CartelAPI \<Rightarrow> request list" where
  "issued base net cl c = drop (length (sent c)) (sent (snd (invoke base net cl c)))"

text \<open>The two methods that bypass the generic helper, and the helper called directly.\<close>

fun health_check :: "call \<Rightarrow> bool" where
  "health_check CheckHealth = True"
| "health_check CheckDatabase = True"
| "health_check cl = False"

fun generic :: "call \<Rightarrow> bool" where
  "generic (Fetch endpoint opts) = True"
| "generic cl = False"

section \<open>The query string of getUserBets, as specified\<close>

text \<open>
  The value of a query option: \<^verbatim>\<open>undefined\<close> when the options object does not have it.
\<close>

definition query_value :: "(string \<times> jsval) list \<Rightarrow> string \<Rightarrow> jsval" where
  "query_value kvs k = (case map_of kvs k of None \<Rightarrow> JUndefined | Some v \<Rightarrow> v)"

text \<open>
  Following the spec's words: the query string holds exactly the parameters among
  status, limit and offset that the options supply, in that order; a parameter counts
  as supplied when the options object gives it a value other than \<^verbatim>\<open>undefined\<close>.
\<close>

definition supplied_query :: "(string \<times> jsval) list \<Rightarrow> string" where
  "supplied_query kvs =
     join ''&'' (map (\<lambda>k. k @ ''='' @ urlencode (to_string (query_value kvs k)))
       (filter (\<lambda>k. query_value kvs k \<noteq> JUndefined) [''status'', ''limit'', ''offset'']))"

text \<open>The same with the parameters whose value is truthy.\<close>

definition truthy_query :: "(string \<times> jsval) list \<Rightarrow> string" where
  "truthy_query kvs =
     join ''&'' (map (\<lambda>k. k @ ''='' @ urlencode (to_string (query_value kvs k)))
       (filter (\<lambda>k. truthy (query_value kvs k)) [''status'', ''limit'', ''offset'']))"

section \<open>Concrete inputs\<close>

text \<open>A page with empty storage, and the same after a session has been set.\<close>

definition fresh_client :: CartelAPI where
  "fresh_client = constructor Map.empty"

definition demo_client :: CartelAPI where
  "demo_client = setToken (JStr ''t1'') (JStr ''u1'') (JStr ''0xABC'') fresh_client"

text \<open>A transport that answers every request with \<open>r\<close>, and an unreachable host.\<close>

definition respond :: "response \<Rightarrow> transport" where
  "respond r req = Resolved r"

definition unreachable :: transport where
  "unreachable req = Rejected (TypeError ''Failed to fetch'')"

definition invalid_token_401 :: response where
  "invalid_token_401 =
     \<lparr>resp_status = 401, resp_json = Inr (JObj [(''error'', JStr ''invalid token'')])\<rparr>"

definition not_found_404 :: response where
  "not_found_404 = \<lparr>resp_status = 404, resp_json = Inr (JObj [])\<rparr>"

definition bad_gateway_502 :: response where
  "bad_gateway_502 = \<lparr>resp_status = 502, resp_json = Inr (JStr ''Bad Gateway'')\<rparr>"

definition empty_error_400 :: response where
  "empty_error_400 = \<lparr>resp_status = 400, resp_json = Inr (JObj [(''error'', JStr [])])\<rparr>"

definition html_body_500 :: response where
  "html_body_500 =
     \<lparr>resp_status = 500, resp_json = Inl (SyntaxError ''Unexpected token < in JSON at position 0'')\<rparr>"

definition login_200 :: response where
  "login_200 =
     \<lparr>resp_status = 200,
      resp_json = Inr (JObj [(''token'', JStr ''t1''), (''userId'', JStr ''u1'')])\<rparr>"

definition empty_object_200 :: response where
  "empty_object_200 = \<lparr>resp_status = 200, resp_json = Inr (JObj [])\<rparr>"


text \<open>Options in which the caller passes headers of its own to the generic helper.\<close>

definition caller_options :: options where
  "caller_options =
     \<lparr>opt_method = None, opt_body = None,
      opt_headers = Some [''Authorization'' \<mapsto> ''Basic abc'', ''Content-Type'' \<mapsto> ''text/plain'']\<rparr>"

section \<open>Facts about the generic request helper\<close>

text \<open>The helper hands exactly one request to the transport and leaves the session alone.\<close>

lemma sent_fetch:
  "sent (snd (fetch base net e opts c)) = sent c @ [fetch_request base e opts c]"
  by (simp add: fetch_def window_fetch_def split: outcome.splits sum.splits)

lemma fetch_session:
  "token (snd (fetch base net e opts c)) = token c"
  "userId (snd (fetch base net e opts c)) = userId c"
  "walletAddress (snd (fetch base net e opts c)) = walletAddress c"
  "localStorage (snd (fetch base net e opts c)) = localStorage c"
  by (simp_all add: fetch_def window_fetch_def split: outcome.splits sum.splits)

lemma sent_setToken: "sent (setToken t u w c) = sent c"
  by (simp add: setToken_def setItem_def)

lemma issued_fetch: "issued base net (Fetch e opts) c = [fetch_request base e opts c]"
  by (simp add: issued_def sent_fetch)

text \<open>
  A body that is not JSON: the rejection of \<^verbatim>\<open>response.json()\<close> leaves the helper as it
  is, whatever the status; line 54 is not reached.
\<close>

lemma fetch_unparseable_body:
  "net (fetch_request base endpoint opts c) = Resolved r \<Longrightarrow> resp_json r = Inl e \<Longrightarrow>
   fst (fetch base net endpoint opts c) = Inl e"
  by (simp add: fetch_def window_fetch_def)

text \<open>
  C1 (as amended). For a call through the generic request helper whose response has a
  status outside 200-299 and a body that parses as a JSON value other than null, the
  operation fails with an error whose message is the body's \<^verbatim>\<open>error\<close> field when the
  body is an object and that field is a non-empty string, and \<^verbatim>\<open>API Error: <status code>\<close>
  when the parsed body has no \<^verbatim>\<open>error\<close> field (an object without it, or an array,
  string, number or boolean) or the field is the empty string.
\<close>

theorem fetch_error_message:
  assumes "net (fetch_request base endpoint opts c) = Resolved r"
    and "\<not> ok r"
    and "resp_json r = Inr body"
  shows "(body = JObj kvs \<and> map_of kvs ''error'' = Some (JStr m) \<and> m \<noteq> [] \<longrightarrow>
            fst (fetch base net endpoint opts c) = Inl (Error m)) \<and>
         (body = JObj kvs \<and>
            (map_of kvs ''error'' = None \<or> map_of kvs ''error'' = Some (JStr [])) \<longrightarrow>
            fst (fetch base net endpoint opts c) =
              Inl (Error (''API Error: '' @ show_nat (resp_status r)))) \<and>
         (body = JArr xs \<or> body = JStr s \<or> body = JNum n \<or> body = JBool b \<longrightarrow>
            fst (fetch base net endpoint opts c) =
              Inl (Error (''API Error: '' @ show_nat (resp_status r))))"
  using assms by (auto simp add: fetch_def window_fetch_def)

text \<open>
  The three cases at concrete responses: a 401 with body \<^verbatim>\<open>{"error":"invalid token"}\<close>,
  a 404 with body \<^verbatim>\<open>{}\<close> and a 502 whose body is the JSON string \<^verbatim>\<open>"Bad Gateway"\<close>.
\<close>

theorem fetch_error_message_witness:
  "fst (fetch (API_BASE_URL None) (respond invalid_token_401) ''/bets/b1'' no_options demo_client)
     = Inl (Error ''invalid token'') \<and>
   fst (fetch (API_BASE_URL None) (respond not_found_404) ''/games/g1'' no_options fresh_client)
     = Inl (Error ''API Error: 404'') \<and>
   fst (fetch (API_BASE_URL None) (respond bad_gateway_502) ''/games'' no_options fresh_client)
     = Inl (Error ''API Error: 502'')"
proof -
  have a: "respond invalid_token_401
             (fetch_request (API_BASE_URL None) ''/bets/b1'' no_options demo_client)
           = Resolved invalid_token_401"
    by (simp add: respond_def)
  have b: "\<not> ok invalid_token_401"
    by (simp add: ok_def invalid_token_401_def)
  have c: "resp_json invalid_token_401 = Inr (JObj [(''error'', JStr ''invalid token'')])"
    by (simp add: invalid_token_401_def)
  have a': "respond not_found_404
             (fetch_request (API_BASE_URL None) ''/games/g1'' no_options fresh_client)
           = Resolved not_found_404"
    by (simp add: respond_def)
  have b': "\<not> ok not_found_404"
    by (simp add: ok_def not_found_404_def)
  have c': "resp_json not_found_404 = Inr (JObj [])"
    by (simp add: not_found_404_def)
  have d': "show_nat (resp_status not_found_404) = ''404''"
    by (simp add: not_found_404_def show_nat.simps digit_char_def)
  have a'': "respond bad_gateway_502
             (fetch_request (API_BASE_URL None) ''/games'' no_options fresh_client)
           = Resolved bad_gateway_502"
    by (simp add: respond_def)
  have b'': "\<not> ok bad_gateway_502"
    by (simp add: ok_def bad_gateway_502_def)
  have c'': "resp_json bad_gateway_502 = Inr (JStr ''Bad Gateway'')"
    by (simp add: bad_gateway_502_def)
  have d'': "show_nat (resp_status bad_gateway_502) = ''502''"
    by (simp add: bad_gateway_502_def show_nat.simps digit_char_def)
  show ?thesis
    using fetch_error_message [where net = "respond invalid_token_401"
          and kvs = "[(''error'', JStr ''invalid token'')]" and m = "''invalid token''", OF a b c]
      fetch_error_message [where net = "respond not_found_404" and kvs = "[]" and m = "[]",
          OF a' b' c']
      fetch_error_message [where net = "respond bad_gateway_502" and s = "''Bad Gateway''",
          OF a'' b'' c''] d' d''
    by simp
qed

text \<open>
  C1 as stated fails at two responses. A 400 response whose body \<^verbatim>\<open>{"error":""}\<close> parses
  as JSON and has the \<^verbatim>\<open>error\<close> string field is reported as \<^verbatim>\<open>API Error: 400\<close>, not with
  the field's value, since \<^verbatim>\<open>||\<close> on line 54 takes the empty string for absent. A 500
  response whose body is not JSON fails with the parser's SyntaxError, not with
  \<^verbatim>\<open>API Error: 500\<close>: \<^verbatim>\<open>response.json()\<close> on line 53 rejects before line 54 is reached.
\<close>

theorem fetch_error_message_counterexample:
  "\<not> ok empty_error_400 \<and>
   resp_json empty_error_400 = Inr (JObj [(''error'', JStr [])]) \<and>
   fst (fetch (API_BASE_URL None) (respond empty_error_400) ''/games'' no_options fresh_client)
     = Inl (Error ''API Error: 400'') \<and>
   fst (fetch (API_BASE_URL None) (respond empty_error_400) ''/games'' no_options fresh_client)
     \<noteq> Inl (Error []) \<and>
   \<not> ok html_body_500 \<and>
   resp_json html_body_500 = Inl (SyntaxError ''Unexpected token < in JSON at position 0'') \<and>
   fst (fetch (API_BASE_URL None) (respond html_body_500) ''/games'' no_options fresh_client)
     = Inl (SyntaxError ''Unexpected token < in JSON at position 0'') \<and>
   message (SyntaxError ''Unexpected token < in JSON at position 0'') \<noteq> ''API Error: 500''"
  by (simp add: fetch_def window_fetch_def respond_def empty_error_400_def html_body_500_def
      ok_def show_nat.simps digit_char_def)

text \<open>
  A body that parses to \<^verbatim>\<open>null\<close> has no \<^verbatim>\<open>error\<close> field either, and the read of
  \<^verbatim>\<open>error.error\<close> on line 54 throws a TypeError; this is the one parsed body the
  amended statement leaves out.
\<close>

lemma fetch_null_body:
  "net (fetch_request base endpoint opts c) = Resolved r \<Longrightarrow> \<not> ok r \<Longrightarrow>
   resp_json r = Inr JNull \<Longrightarrow>
   fst (fetch base net endpoint opts c) = Inl (TypeError ''Cannot read properties of null'')"
  by (simp add: fetch_def window_fetch_def)

section \<open>The bearer credential\<close>

lemma sent_authenticateWallet:
  "sent (snd (authenticateWallet base net w s c)) =
     sent c @ [fetch_request base ''/auth/connect'' (connect_options w s) c]"
proof -
  obtain res c' where f: "fetch base net ''/auth/connect'' (connect_options w s) c = (res, c')"
    by (cases "fetch base net ''/auth/connect'' (connect_options w s) c")
  have "sent c' = sent c @ [fetch_request base ''/auth/connect'' (connect_options w s) c]"
    using sent_fetch [of base net "''/auth/connect''" "connect_options w s" c] f by simp
  then show ?thesis
    by (simp add: authenticateWallet_def f sent_setToken split: sum.splits)
qed

lemma sent_getUserBets:
  "sent (snd (getUserBets base net opts0 c)) = sent c \<or>
   (\<exists>e. sent (snd (getUserBets base net opts0 c)) = sent c @ [fetch_request base e no_options c])"
  by (auto simp add: getUserBets_def Let_def sent_fetch split: sum.splits)

text \<open>
  Every request of a call is either the bare request of a health check or the request
  the generic helper builds from the session at the time of the call; only a direct
  call of the helper passes headers of its own.
\<close>

lemma issued_request_cases:
  assumes "req \<in> set (issued base net cl c)"
  shows "(health_check cl \<and> req_headers req = Map.empty) \<or>
         (\<not> health_check cl \<and>
            (\<exists>e opts. req = fetch_request base e opts c \<and>
               (if generic cl then cl = Fetch e opts else opt_headers opts = None)))"
proof (cases cl)
  case (Fetch e opts)
  then show ?thesis using assms by (simp add: issued_fetch)
next
  case (AuthenticateWallet w s)
  have "opt_headers (connect_options w s) = None"
    by (simp add: connect_options_def)
  with AuthenticateWallet show ?thesis using assms sent_authenticateWallet [of base net w s c]
    by (fastforce simp add: issued_def)
next
  case (GetUserBets opts0)
  then show ?thesis using assms sent_getUserBets [of base net opts0 c]
    by (fastforce simp add: issued_def no_options_def)
next
  case CheckHealth
  then show ?thesis using assms
    by (auto simp add: issued_def checkHealth_def window_fetch_def bare_request_def
        split: outcome.splits)
next
  case CheckDatabase
  then show ?thesis using assms
    by (auto simp add: issued_def checkDatabase_def window_fetch_def bare_request_def
        split: outcome.splits)
qed (use assms in \<open>(fastforce simp add: issued_def sent_fetch no_options_def getAllGames_def
       getGamesByCategory_def getGame_def placeBet_def getBet_def settleBet_def deposit_def
       withdraw_def getTransactions_def Let_def split: if_splits)+\<close>)

lemma fetch_request_authorization:
  "req_headers (fetch_request base e opts c) ''Authorization'' =
     (if truthy (token c) then Some (''Bearer '' @ to_string (token c))
      else case opt_headers opts of None \<Rightarrow> None | Some h \<Rightarrow> h ''Authorization'')"
  by (simp add: fetch_request_def fetch_headers_def Let_def map_add_def split: option.splits)

text \<open>
  C2 (as amended). Whenever the session token is truthy (a non-empty string), every
  request issued by a method other than checkHealth and checkDatabase carries the header
  \<^verbatim>\<open>Authorization: Bearer <token>\<close>; whenever the token is null (or otherwise falsy), no
  request issued by a method of the client carries an Authorization header, a direct
  call of the generic helper with headers of the caller's aside; the requests of
  checkHealth and checkDatabase never carry one.
\<close>

theorem bearer_credential:
  assumes "req \<in> set (issued base net cl c)"
  shows "(truthy (token c) \<and> \<not> health_check cl \<longrightarrow>
            req_headers req ''Authorization'' = Some (''Bearer '' @ to_string (token c))) \<and>
         (\<not> truthy (token c) \<and> \<not> generic cl \<longrightarrow> req_headers req ''Authorization'' = None) \<and>
         (\<not> truthy (token c) \<and> cl = Fetch endpoint opts \<longrightarrow>
            req_headers req ''Authorization'' =
              (case opt_headers opts of None \<Rightarrow> None | Some h \<Rightarrow> h ''Authorization'')) \<and>
         (health_check cl \<longrightarrow> req_headers req ''Authorization'' = None)"
  using issued_request_cases [OF assms]
  by (auto simp add: fetch_request_authorization)

text \<open>
  The four cases at concrete inputs: getAllGames with the session token \<^verbatim>\<open>t1\<close>,
  getAllGames without a session, the helper called without a session and with an
  Authorization header of the caller's, and checkHealth with the session token \<^verbatim>\<open>t1\<close>.
\<close>

theorem bearer_credential_witness:
  "fetch_request (API_BASE_URL None) ''/games'' no_options demo_client
     \<in> set (issued (API_BASE_URL None) unreachable GetAllGames demo_client) \<and>
   req_headers (fetch_request (API_BASE_URL None) ''/games'' no_options demo_client)
     ''Authorization'' = Some ''Bearer t1'' \<and>
   fetch_request (API_BASE_URL None) ''/games'' no_options fresh_client
     \<in> set (issued (API_BASE_URL None) unreachable GetAllGames fresh_client) \<and>
   req_headers (fetch_request (API_BASE_URL None) ''/games'' no_options fresh_client)
     ''Authorization'' = None \<and>
   fetch_request (API_BASE_URL None) ''/games'' caller_options fresh_client
     \<in> set (issued (API_BASE_URL None) unreachable (Fetch ''/games'' caller_options) fresh_client) \<and>
   req_headers (fetch_request (API_BASE_URL None) ''/games'' caller_options fresh_client)
     ''Authorization'' = Some ''Basic abc'' \<and>
   bare_request ''http://localhost:3001/health''
     \<in> set (issued (API_BASE_URL None) unreachable CheckHealth demo_client) \<and>
   req_headers (bare_request ''http://localhost:3001/health'') ''Authorization'' = None"
proof -
  have m1: "fetch_request (API_BASE_URL None) ''/games'' no_options demo_client
              \<in> set (issued (API_BASE_URL None) unreachable GetAllGames demo_client)"
    by (simp add: issued_def getAllGames_def sent_fetch)
  have t1: "truthy (token demo_client)" "to_string (token demo_client) = ''t1''"
    by (simp_all add: demo_client_def setToken_def setItem_def)
  have m2: "fetch_request (API_BASE_URL None) ''/games'' no_options fresh_client
              \<in> set (issued (API_BASE_URL None) unreachable GetAllGames fresh_client)"
    by (simp add: issued_def getAllGames_def sent_fetch)
  have t2: "\<not> truthy (token fresh_client)"
    by (simp add: fresh_client_def constructor_def getItem_def)
  have m3: "bare_request ''http://localhost:3001/health''
              \<in> set (issued (API_BASE_URL None) unreachable CheckHealth demo_client)"
    by (simp add: issued_def checkHealth_def window_fetch_def unreachable_def API_BASE_URL_def)
  have m4: "fetch_request (API_BASE_URL None) ''/games'' caller_options fresh_client
              \<in> set (issued (API_BASE_URL None) unreachable (Fetch ''/games'' caller_options)
                    fresh_client)"
    by (simp add: issued_fetch)
  have h4: "opt_headers caller_options =
              Some [''Authorization'' \<mapsto> ''Basic abc'', ''Content-Type'' \<mapsto> ''text/plain'']"
    by (simp add: caller_options_def)
  show ?thesis
    using bearer_credential [OF m1] bearer_credential [OF m2] bearer_credential [OF m3]
      bearer_credential [OF m4, of "''/games''" caller_options]
      m1 m2 m3 m4 h4 t1 t2
    by simp
qed

text \<open>
  C2 as stated fails: with the session token \<^verbatim>\<open>t1\<close> set, the one request of checkHealth
  is the bare request of the health URL, which has no Authorization header.
\<close>

theorem checkHealth_no_bearer_counterexample:
  "token demo_client = JStr ''t1'' \<and>
   issued (API_BASE_URL None) (respond empty_object_200) CheckHealth demo_client
     = [bare_request ''http://localhost:3001/health''] \<and>
   req_headers (bare_request ''http://localhost:3001/health'') ''Authorization'' = None"
  by (simp add: issued_def checkHealth_def window_fetch_def respond_def API_BASE_URL_def
      demo_client_def setToken_def setItem_def bare_request_def)

section \<open>Methods that require a session\<close>



section \<open>The query string of getUserBets\<close>

lemma urlencode_keys:
  "urlencode ''status'' = ''status''" "urlencode ''limit'' = ''limit''"
  "urlencode ''offset'' = ''offset''"
  by (simp_all add: urlencode_def urlencode_byte_def url_unreserved_def)

lemma issued_getUserBets:
  assumes "truthy (userId c)"
  shows "issued base net (GetUserBets (JObj kvs)) c =
           [fetch_request base
              (''/bets/user/'' @ to_string (userId c) @ ''?'' @ truthy_query kvs) no_options c]"
  using assms
  by (simp add: issued_def getUserBets_def append_option_def sent_fetch
      truthy_query_def query_value_def params_toString_def urlencode_keys)

text \<open>
  C4 (as amended). With a session user id, getUserBets(options) requests the URL
  \<^verbatim>\<open>/bets/user/{userId}?\<close> followed by a query string that holds exactly those of the
  status, limit and offset parameters whose value in options is truthy, in that order,
  each as \<^verbatim>\<open>name=value\<close> in form-urlencoded spelling and joined by \<^verbatim>\<open>&\<close>; a parameter that
  is absent or falsy (\<^verbatim>\<open>undefined\<close>, \<^verbatim>\<open>null\<close>, \<^verbatim>\<open>0\<close>, the empty string, \<^verbatim>\<open>false\<close>) is omitted.
  Without an argument the query string is empty.
\<close>

theorem getUserBets_query:
  assumes "truthy (userId c)"
  shows "map req_url (issued base net (GetUserBets (JObj kvs)) c) =
           [base @ ''/bets/user/'' @ to_string (userId c) @ ''?'' @ truthy_query kvs] \<and>
         map req_url (issued base net (GetUserBets JUndefined) c) =
           [base @ ''/bets/user/'' @ to_string (userId c) @ ''?'']"
proof -
  have "truthy_query [] = []"
    by (simp add: truthy_query_def query_value_def)
  moreover have "issued base net (GetUserBets JUndefined) c = issued base net (GetUserBets (JObj [])) c"
    by (simp add: issued_def getUserBets_def)
  ultimately show ?thesis
    using issued_getUserBets [OF assms, of base net kvs] issued_getUserBets [OF assms, of base net "[]"]
    by (simp add: fetch_request_def)
qed

text \<open>
  The spec's example: getUserBets({status:"pending", limit:10}) for the user \<^verbatim>\<open>u1\<close>.
\<close>

theorem getUserBets_query_witness:
  "truthy (userId demo_client) \<and>
   map req_url (issued (API_BASE_URL None) unreachable
       (GetUserBets (JObj [(''status'', JStr ''pending''), (''limit'', JNum 10)])) demo_client) =
     [''http://localhost:3001/api/bets/user/u1?status=pending&limit=10'']"
proof -
  have u: "truthy (userId demo_client)" "to_string (userId demo_client) = ''u1''"
    by (simp_all add: demo_client_def setToken_def setItem_def)
  have q: "truthy_query [(''status'', JStr ''pending''), (''limit'', JNum 10)]
             = ''status=pending&limit=10''"
    by (simp add: truthy_query_def query_value_def urlencode_def urlencode_byte_def
        url_unreserved_def show_int_def show_nat.simps digit_char_def)
  show ?thesis
    using getUserBets_query [OF u(1), of "API_BASE_URL None" unreachable
        "[(''status'', JStr ''pending''), (''limit'', JNum 10)]"] u q
    by (simp add: API_BASE_URL_def)
qed

text \<open>
  C4 as stated fails: getUserBets({offset: 0}) supplies the offset, so the query string
  of the claim is \<^verbatim>\<open>offset=0\<close>, but the guard on line 156 takes 0 for absent and the
  requested URL ends in \<^verbatim>\<open>?\<close>.
\<close>

theorem getUserBets_offset_zero_counterexample:
  "supplied_query [(''offset'', JNum 0)] = ''offset=0'' \<and>
   map req_url (issued (API_BASE_URL None) unreachable
       (GetUserBets (JObj [(''offset'', JNum 0)])) demo_client) =
     [''http://localhost:3001/api/bets/user/u1?''] \<and>
   ''http://localhost:3001/api/bets/user/u1?'' \<noteq>
     API_BASE_URL None @ ''/bets/user/u1?'' @ supplied_query [(''offset'', JNum 0)]"
  by (simp add: supplied_query_def query_value_def urlencode_def urlencode_byte_def
      url_unreserved_def show_int_def show_nat.simps digit_char_def
      issued_def getUserBets_def append_option_def sent_fetch fetch_request_def
      params_toString_def API_BASE_URL_def demo_client_def setToken_def setItem_def)

section \<open>Health checks\<close>

text \<open>
  C5. checkHealth and checkDatabase are to fetch the base URL with its \<^verbatim>\<open>/api\<close> suffix
  stripped, followed by \<^verbatim>\<open>/health\<close> and \<^verbatim>\<open>/db-check\<close>. The code removes the first
  occurrence of \<^verbatim>\<open>/api\<close> instead: for the base URL \<^verbatim>\<open>https://api.example.com/api\<close> that
  occurrence is in front of the host name, the suffix stays, and the requested URLs are
  \<^verbatim>\<open>https:/.example.com/api/health\<close> and \<^verbatim>\<open>https:/.example.com/api/db-check\<close>.
\<close>

theorem checkHealth_api_host:
  "map req_url (issued ''https://api.example.com/api'' unreachable CheckHealth fresh_client)
     = [''https:/.example.com/api/health''] \<and>
   map req_url (issued ''https://api.example.com/api'' unreachable CheckDatabase fresh_client)
     = [''https:/.example.com/api/db-check'']"
  by (simp add: issued_def checkHealth_def checkDatabase_def window_fetch_def unreachable_def
      bare_request_def)

text \<open>With the default base URL the first occurrence is the suffix.\<close>

lemma checkHealth_default_base:
  "map req_url (issued (API_BASE_URL None) unreachable CheckHealth fresh_client)
     = [''http://localhost:3001/health''] \<and>
   map req_url (issued (API_BASE_URL None) unreachable CheckDatabase fresh_client)
     = [''http://localhost:3001/db-check'']"
  by (simp add: issued_def checkHealth_def checkDatabase_def window_fetch_def unreachable_def
      bare_request_def API_BASE_URL_def)

text \<open>
  C6. checkHealth never raises: whatever the transport does, it resolves to a status
  record. A transport failure gives \<^verbatim>\<open>{status: "offline", error: <message>}\<close>, a response
  gives \<^verbatim>\<open>{status: "healthy"}\<close> when its status is in 200-299 and \<^verbatim>\<open>{status: "unhealthy"}\<close>
  otherwise; checkDatabase does the same with \<^verbatim>\<open>error\<close>, \<^verbatim>\<open>connected\<close> and \<^verbatim>\<open>disconnected\<close>.
\<close>

theorem health_checks_never_raise:
  "(\<exists>v. fst (checkHealth base net c) = Inr v) \<and>
   (\<exists>v. fst (checkDatabase base net c) = Inr v) \<and>
   (net (bare_request (String_replace base ''/api'' [] @ ''/health'')) = Rejected e \<longrightarrow>
      fst (checkHealth base net c) =
        Inr (JObj [(''status'', JStr ''offline''), (''error'', JStr (message e))])) \<and>
   (net (bare_request (String_replace base ''/api'' [] @ ''/health'')) = Resolved r \<longrightarrow>
      fst (checkHealth base net c) =
        Inr (JObj [(''status'',
          JStr (if 200 \<le> resp_status r \<and> resp_status r \<le> 299 then ''healthy''
                else ''unhealthy''))])) \<and>
   (net (bare_request (String_replace base ''/api'' [] @ ''/db-check'')) = Rejected e \<longrightarrow>
      fst (checkDatabase base net c) =
        Inr (JObj [(''status'', JStr ''error''), (''error'', JStr (message e))])) \<and>
   (net (bare_request (String_replace base ''/api'' [] @ ''/db-check'')) = Resolved r \<longrightarrow>
      fst (checkDatabase base net c) =
        Inr (JObj [(''status'',
          JStr (if 200 \<le> resp_status r \<and> resp_status r \<le> 299 then ''connected''
                else ''disconnected''))]))"
  by (simp add: checkHealth_def checkDatabase_def window_fetch_def ok_def split: outcome.splits)

text \<open>An unreachable host, a 200 response and a 404 response.\<close>

theorem health_checks_never_raise_witness:
  "fst (checkHealth (API_BASE_URL None) unreachable fresh_client) =
     Inr (JObj [(''status'', JStr ''offline''), (''error'', JStr ''Failed to fetch'')]) \<and>
   fst (checkDatabase (API_BASE_URL None) unreachable fresh_client) =
     Inr (JObj [(''status'', JStr ''error''), (''error'', JStr ''Failed to fetch'')]) \<and>
   fst (checkHealth (API_BASE_URL None) (respond empty_object_200) fresh_client) =
     Inr (JObj [(''status'', JStr ''healthy'')]) \<and>
   fst (checkDatabase (API_BASE_URL None) (respond not_found_404) fresh_client) =
     Inr (JObj [(''status'', JStr ''disconnected'')])"
  using health_checks_never_raise [of "API_BASE_URL None" unreachable fresh_client
      "TypeError ''Failed to fetch''"]
    health_checks_never_raise [of "API_BASE_URL None" "respond empty_object_200" fresh_client _
      empty_object_200]
    health_checks_never_raise [of "API_BASE_URL None" "respond not_found_404" fresh_client _
      not_found_404]
  by (simp add: unreachable_def respond_def empty_object_200_def not_found_404_def)

section \<open>Authentication\<close>

lemma get_prop_defined:
  "v \<noteq> JNull \<Longrightarrow> v \<noteq> JUndefined \<Longrightarrow> \<exists>x. get_prop v k = Inr x"
  by (cases v) simp_all

text \<open>The success path of authenticateWallet.\<close>

lemma authenticateWallet_success:
  assumes "net (fetch_request base ''/auth/connect'' (connect_options wallet signature) c) = Resolved r"
    and "ok r"
    and "resp_json r = Inr body"
    and "get_prop body ''token'' = Inr t"
    and "get_prop body ''userId'' = Inr u"
  shows "authenticateWallet base net wallet signature c =
           (Inr body,
            setToken t u wallet
              (c\<lparr>sent := sent c @ [fetch_request base ''/auth/connect'' (connect_options wallet signature) c]\<rparr>))"
  using assms by (simp add: authenticateWallet_def fetch_def window_fetch_def)

lemma setToken_fields:
  "token (setToken t u w c) = t" "userId (setToken t u w c) = u"
  "walletAddress (setToken t u w c) = w"
  "localStorage (setToken t u w c) ''cartel47_token'' = Some (to_string t)"
  "localStorage (setToken t u w c) ''cartel47_userId'' = Some (to_string u)"
  "localStorage (setToken t u w c) ''cartel47_wallet'' = Some (to_string w)"
  by (simp_all add: setToken_def setItem_def)

text \<open>
  C7 (as amended). For every wallet address and signature, authenticateWallet POSTs to
  \<^verbatim>\<open>/auth/connect\<close> and, on a successful response whose body has truthy \<^verbatim>\<open>token\<close> and
  \<^verbatim>\<open>userId\<close> fields, stores the session (server-returned token, server-returned userId,
  supplied wallet address), so that every subsequent request of a method other than
  checkHealth and checkDatabase carries \<^verbatim>\<open>Authorization: Bearer <that token>\<close> and
  getUserBets targets \<^verbatim>\<open>/bets/user/<that userId>\<close>.
\<close>

theorem authenticateWallet_session:
  assumes "net (fetch_request base ''/auth/connect'' (connect_options wallet signature) c) = Resolved r"
    and "ok r"
    and "resp_json r = Inr body"
    and "get_prop body ''token'' = Inr t" and "truthy t"
    and "get_prop body ''userId'' = Inr u" and "truthy u"
  shows "map req_url (issued base net (AuthenticateWallet wallet signature) c)
           = [base @ ''/auth/connect''] \<and>
         map req_method (issued base net (AuthenticateWallet wallet signature) c)
           = [Some ''POST''] \<and>
         token (snd (authenticateWallet base net wallet signature c)) = t \<and>
         userId (snd (authenticateWallet base net wallet signature c)) = u \<and>
         walletAddress (snd (authenticateWallet base net wallet signature c)) = wallet \<and>
         (req \<in> set (issued base net' cl (snd (authenticateWallet base net wallet signature c)))
            \<and> \<not> health_check cl \<longrightarrow>
            req_headers req ''Authorization'' = Some (''Bearer '' @ to_string t)) \<and>
         map req_url (issued base net' (GetUserBets (JObj kvs))
             (snd (authenticateWallet base net wallet signature c)))
           = [base @ ''/bets/user/'' @ to_string u @ ''?'' @ truthy_query kvs]"
proof -
  let ?c' = "snd (authenticateWallet base net wallet signature c)"
  note s = authenticateWallet_success [where net = net, OF assms(1,2,3,4,6)]
  have f: "token ?c' = t" "userId ?c' = u" "walletAddress ?c' = wallet"
    by (simp_all add: s setToken_fields)
  have i: "map req_url (issued base net (AuthenticateWallet wallet signature) c)
             = [base @ ''/auth/connect'']"
          "map req_method (issued base net (AuthenticateWallet wallet signature) c)
             = [Some ''POST'']"
    by (simp_all add: issued_def s sent_setToken fetch_request_def connect_options_def)
  have a: "req \<in> set (issued base net' cl ?c') \<and> \<not> health_check cl \<longrightarrow>
            req_headers req ''Authorization'' = Some (''Bearer '' @ to_string t)"
  proof
    assume h: "req \<in> set (issued base net' cl ?c') \<and> \<not> health_check cl"
    then obtain e opts where "req = fetch_request base e opts ?c'"
      using issued_request_cases [of req base net' cl ?c'] by blast
    then show "req_headers req ''Authorization'' = Some (''Bearer '' @ to_string t)"
      using f(1) assms(5) by (simp add: fetch_request_authorization)
  qed
  have g: "map req_url (issued base net' (GetUserBets (JObj kvs)) ?c')
             = [base @ ''/bets/user/'' @ to_string u @ ''?'' @ truthy_query kvs]"
    using issued_getUserBets [of ?c' base net' kvs] f(2) assms(7)
    by (simp add: fetch_request_def)
  show ?thesis using f i a g by simp
qed

text \<open>
  The spec's example: authenticateWallet("0xABC", "sig") answered by
  \<^verbatim>\<open>{token:"t1", userId:"u1"}\<close>, followed by getAllGames and by getUserBets.
\<close>

theorem authenticateWallet_session_witness:
  "ok login_200 \<and>
   token (snd (authenticateWallet (API_BASE_URL None) (respond login_200)
       (JStr ''0xABC'') (JStr ''sig'') fresh_client)) = JStr ''t1'' \<and>
   userId (snd (authenticateWallet (API_BASE_URL None) (respond login_200)
       (JStr ''0xABC'') (JStr ''sig'') fresh_client)) = JStr ''u1'' \<and>
   walletAddress (snd (authenticateWallet (API_BASE_URL None) (respond login_200)
       (JStr ''0xABC'') (JStr ''sig'') fresh_client)) = JStr ''0xABC'' \<and>
   map req_url (issued (API_BASE_URL None) (respond login_200)
       (AuthenticateWallet (JStr ''0xABC'') (JStr ''sig'')) fresh_client)
     = [''http://localhost:3001/api/auth/connect''] \<and>
   issued (API_BASE_URL None) unreachable GetAllGames
       (snd (authenticateWallet (API_BASE_URL None) (respond login_200)
          (JStr ''0xABC'') (JStr ''sig'') fresh_client))
     = [fetch_request (API_BASE_URL None) ''/games'' no_options
         (snd (authenticateWallet (API_BASE_URL None) (respond login_200)
            (JStr ''0xABC'') (JStr ''sig'') fresh_client))] \<and>
   req_headers (fetch_request (API_BASE_URL None) ''/games'' no_options
       (snd (authenticateWallet (API_BASE_URL None) (respond login_200)
          (JStr ''0xABC'') (JStr ''sig'') fresh_client))) ''Authorization''
     = Some ''Bearer t1'' \<and>
   map req_url (issued (API_BASE_URL None) unreachable (GetUserBets (JObj []))
       (snd (authenticateWallet (API_BASE_URL None) (respond login_200)
          (JStr ''0xABC'') (JStr ''sig'') fresh_client)))
     = [''http://localhost:3001/api/bets/user/u1?'']"
proof -
  let ?c' = "snd (authenticateWallet (API_BASE_URL None) (respond login_200)
               (JStr ''0xABC'') (JStr ''sig'') fresh_client)"
  have a: "respond login_200 (fetch_request (API_BASE_URL None) ''/auth/connect''
             (connect_options (JStr ''0xABC'') (JStr ''sig'')) fresh_client) = Resolved login_200"
    by (simp add: respond_def)
  have b: "ok login_200"
    by (simp add: ok_def login_200_def)
  have c: "resp_json login_200 = Inr (JObj [(''token'', JStr ''t1''), (''userId'', JStr ''u1'')])"
    by (simp add: login_200_def)
  have d: "get_prop (JObj [(''token'', JStr ''t1''), (''userId'', JStr ''u1'')]) ''token''
             = Inr (JStr ''t1'')"
          "get_prop (JObj [(''token'', JStr ''t1''), (''userId'', JStr ''u1'')]) ''userId''
             = Inr (JStr ''u1'')"
          "truthy (JStr ''t1'')" "truthy (JStr ''u1'')"
    by simp_all
  have q: "truthy_query [] = []"
    by (simp add: truthy_query_def query_value_def)
  have m: "issued (API_BASE_URL None) unreachable GetAllGames ?c'
             = [fetch_request (API_BASE_URL None) ''/games'' no_options ?c']"
    by (simp add: issued_def getAllGames_def sent_fetch)
  show ?thesis
    using authenticateWallet_session [where net = "respond login_200" and net' = unreachable
        and kvs = "[]" and cl = GetAllGames
        and req = "fetch_request (API_BASE_URL None) ''/games'' no_options ?c'",
        OF a b c d(1) d(3) d(2) d(4)] b q m
    by (simp add: API_BASE_URL_def)
qed

text \<open>
  C7 as stated fails: after the same login, the request of checkDatabase is a
  subsequent request that carries no Authorization header.
\<close>

theorem authenticateWallet_checkDatabase_counterexample:
  "token (snd (authenticateWallet (API_BASE_URL None) (respond login_200)
       (JStr ''0xABC'') (JStr ''sig'') fresh_client)) = JStr ''t1'' \<and>
   issued (API_BASE_URL None) (respond login_200) CheckDatabase
       (snd (authenticateWallet (API_BASE_URL None) (respond login_200)
          (JStr ''0xABC'') (JStr ''sig'') fresh_client))
     = [bare_request ''http://localhost:3001/db-check''] \<and>
   req_headers (bare_request ''http://localhost:3001/db-check'') ''Authorization'' = None"
  by (simp add: authenticateWallet_def fetch_def window_fetch_def respond_def login_200_def
      ok_def setToken_def setItem_def issued_def checkDatabase_def API_BASE_URL_def
      bare_request_def)




section \<open>Caller-supplied headers\<close>

text \<open>
  C9. In the generic request helper the caller's headers are merged before the bearer
  token is applied: when a token is present (truthy) the outgoing Authorization header
  is \<^verbatim>\<open>Bearer <token>\<close> even if the caller supplied an Authorization header of its own,
  whereas a caller-supplied Content-Type header overrides the default
  \<^verbatim>\<open>application/json\<close>.
\<close>

theorem caller_headers_then_token:
  assumes "opt_headers opts = Some h"
  shows "issued base net (Fetch endpoint opts) c = [fetch_request base endpoint opts c] \<and>
    (truthy (token c) \<longrightarrow>
       req_headers (fetch_request base endpoint opts c) ''Authorization'' =
         Some (''Bearer '' @ to_string (token c))) \<and>
    (h ''Content-Type'' = Some ct \<longrightarrow>
       req_headers (fetch_request base endpoint opts c) ''Content-Type'' = Some ct) \<and>
    (h ''Content-Type'' = None \<longrightarrow>
       req_headers (fetch_request base endpoint opts c) ''Content-Type'' = Some ''application/json'')"
  using assms
  by (simp add: issued_fetch fetch_request_def fetch_headers_def Let_def map_add_def)

text \<open>A caller passing \<^verbatim>\<open>Authorization: Basic abc\<close> and \<^verbatim>\<open>Content-Type: text/plain\<close>.\<close>

theorem caller_headers_then_token_witness:
  "opt_headers caller_options =
     Some [''Authorization'' \<mapsto> ''Basic abc'', ''Content-Type'' \<mapsto> ''text/plain''] \<and>
   issued (API_BASE_URL None) unreachable (Fetch ''/games'' caller_options) demo_client
     = [fetch_request (API_BASE_URL None) ''/games'' caller_options demo_client] \<and>
   req_headers (fetch_request (API_BASE_URL None) ''/games'' caller_options demo_client)
     ''Authorization'' = Some ''Bearer t1'' \<and>
   req_headers (fetch_request (API_BASE_URL None) ''/games'' caller_options demo_client)
     ''Content-Type'' = Some ''text/plain''"
proof -
  have h: "opt_headers caller_options =
     Some [''Authorization'' \<mapsto> ''Basic abc'', ''Content-Type'' \<mapsto> ''text/plain'']"
    by (simp add: caller_options_def)
  have t1: "truthy (token demo_client)" "to_string (token demo_client) = ''t1''"
    by (simp_all add: demo_client_def setToken_def setItem_def)
  show ?thesis
    using caller_headers_then_token [OF h, of "API_BASE_URL None" unreachable "''/games''"
        demo_client "''text/plain''"] h t1
    by simp
qed

section \<open>Session properties\<close>

text \<open>
  C8. For all values t, u, w, setSession(t, u, w) followed by clearSession() leaves the
  three session fields null and none of the three persisted keys present in storage.
\<close>

theorem setToken_clearSession:
  "token (clearSession (setToken t u w c)) = JNull \<and>
   userId (clearSession (setToken t u w c)) = JNull \<and>
   walletAddress (clearSession (setToken t u w c)) = JNull \<and>
   localStorage (clearSession (setToken t u w c)) ''cartel47_token'' = None \<and>
   localStorage (clearSession (setToken t u w c)) ''cartel47_userId'' = None \<and>
   localStorage (clearSession (setToken t u w c)) ''cartel47_wallet'' = None"
  by (simp add: clearSession_def setToken_def removeItem_def setItem_def)

end
